theory Spec2Isabelle
  imports Main "HOL-Library.Word"
begin

section \<open>Data model of cryptorand.h\<close>

text \<open>
  Pointers, module handles, entry points and \<^verbatim>\<open>FILE*\<close> values are opaque
  addresses; the null pointer is address 0.
\<close>

type_synonym ptr = nat

abbreviation NULL :: ptr where
  "NULL \<equiv> 0"

text \<open>
  The memory a \<^verbatim>\<open>void* pBufferOut\<close> points at, read from the pointer
  onwards: offset \<open>i\<close> holds the byte at \<^verbatim>\<open>pBufferOut + i\<close>. A null
  \<^verbatim>\<open>pBufferOut\<close> is \<open>None\<close> of \<open>buffer option\<close>.
\<close>

type_synonym byte = "8 word"
type_synonym buffer = "nat \<Rightarrow> byte"

datatype cryptorand_result =
    CRYPTORAND_SUCCESS
  | CRYPTORAND_ERROR
  | CRYPTORAND_INVALID_ARGS
  | CRYPTORAND_INVALID_OPERATION
  | CRYPTORAND_TOO_BIG
  | CRYPTORAND_NOT_IMPLEMENTED

text \<open>The enumerators' values in the header.\<close>

fun result_code :: "cryptorand_result \<Rightarrow> int" where
  "result_code CRYPTORAND_SUCCESS = 0"
| "result_code CRYPTORAND_ERROR = -1"
| "result_code CRYPTORAND_INVALID_ARGS = -2"
| "result_code CRYPTORAND_INVALID_OPERATION = -3"
| "result_code CRYPTORAND_TOO_BIG = -11"
| "result_code CRYPTORAND_NOT_IMPLEMENTED = -29"

text \<open>The \<^verbatim>\<open>win32\<close> member of \<^verbatim>\<open>struct cryptorand\<close>.\<close>

record win32_backend =
  hBcryptDLL :: ptr
  BCryptOpenAlgorithmProvider :: ptr
  BCryptCloseAlgorithmProvider :: ptr
  BCryptGenRandom :: ptr
  hAlgorithm :: ptr
  hAdvapiDLL :: ptr
  CryptAcquireContextW :: ptr
  CryptReleaseContext :: ptr
  CryptGenRandom :: ptr
  hProvider :: ptr

text \<open>The \<^verbatim>\<open>urandom\<close> member of \<^verbatim>\<open>struct cryptorand\<close>.\<close>

record urandom_backend =
  pFile :: ptr

text \<open>
  The struct. Each member exists only under its platform macro; the model carries both
  and the platform decides which one the operations touch.
\<close>

record cryptorand =
  win32 :: win32_backend
  urandom :: urandom_backend

text \<open>
  The preprocessor's choice in the three public functions:
  \<^verbatim>\<open>#if defined(CRYPTORAND_WIN32) ... #elif defined(CRYPTORAND_URANDOM) ... #else\<close>.
\<close>

datatype platform = Win32 | Urandom | Unsupported

definition zero_win32 :: win32_backend where
  "zero_win32 =
     \<lparr>hBcryptDLL = NULL, BCryptOpenAlgorithmProvider = NULL,
      BCryptCloseAlgorithmProvider = NULL, BCryptGenRandom = NULL, hAlgorithm = NULL,
      hAdvapiDLL = NULL, CryptAcquireContextW = NULL, CryptReleaseContext = NULL,
      CryptGenRandom = NULL, hProvider = NULL\<rparr>"

definition zero_urandom :: urandom_backend where
  "zero_urandom = \<lparr>pFile = NULL\<rparr>"

text \<open>The object \<^verbatim>\<open>CRYPTORAND_ZERO_OBJECT(pRNG)\<close> leaves behind.\<close>

definition CRYPTORAND_ZERO_OBJECT :: cryptorand where
  "CRYPTORAND_ZERO_OBJECT = \<lparr>win32 = zero_win32, urandom = zero_urandom\<rparr>"

text \<open>\<^verbatim>\<open>CRYPTORAND_ZERO_MEMORY(p, sz)\<close>, that is \<^verbatim>\<open>memset(p, 0, sz)\<close>.\<close>

definition CRYPTORAND_ZERO_MEMORY :: "buffer \<Rightarrow> nat \<Rightarrow> buffer" where
  "CRYPTORAND_ZERO_MEMORY p sz = (\<lambda>i. if i < sz then 0 else p i)"

text \<open>The casts \<^verbatim>\<open>(ULONG)byteCount\<close> and \<^verbatim>\<open>(DWORD)byteCount\<close>.\<close>

definition ULONG_cast :: "nat \<Rightarrow> nat" where
  "ULONG_cast n = n mod 2 ^ 32"

section \<open>The operating system\<close>

text \<open>
  The services the code calls are not part of the repository. Their answers are
  parameters: one \<open>os_env\<close> says what each service returns during one call of the
  library. \<open>os_BCryptOpenAlgorithmProvider\<close> and \<open>os_CryptAcquireContextW\<close> give the
  returned status and the handle found in the out-parameter afterwards; the three
  generators give the returned status (or item count) and the buffer afterwards.
\<close>

record os_env =
  os_LoadLibraryW :: "string \<Rightarrow> ptr"
  os_GetProcAddress :: "ptr \<Rightarrow> string \<Rightarrow> ptr"
  os_BCryptOpenAlgorithmProvider :: "int \<times> ptr"
  os_BCryptGenRandom :: "ptr \<Rightarrow> buffer \<Rightarrow> nat \<Rightarrow> int \<times> buffer"
  os_CryptAcquireContextW :: "int \<times> ptr"
  os_CryptGenRandom :: "ptr \<Rightarrow> nat \<Rightarrow> buffer \<Rightarrow> int \<times> buffer"
  os_fopen :: "string \<Rightarrow> string \<Rightarrow> ptr"
  os_fread :: "buffer \<Rightarrow> nat \<Rightarrow> nat \<Rightarrow> ptr \<Rightarrow> nat \<times> buffer"

text \<open>
  The effect on the operating system is the sequence of service calls made, in order.
  Every function below takes the calls made so far and returns them extended.
\<close>

datatype os_call =
    Call_LoadLibraryW string
  | Call_GetProcAddress ptr string
  | Call_FreeLibrary ptr
  | Call_BCryptOpenAlgorithmProvider
  | Call_BCryptCloseAlgorithmProvider ptr
  | Call_BCryptGenRandom ptr nat
  | Call_CryptAcquireContextW
  | Call_CryptReleaseContext ptr
  | Call_CryptGenRandom ptr nat
  | Call_fopen string
  | Call_fread ptr nat
  | Call_fclose ptr

text \<open>
  The one way the code itself can crash: a call through an entry-point field of the
  struct that holds the null pointer. A non-null entry point, handle or stream is
  taken to be the one the services handed out, which is so for the zeroed object and
  for every object \<^verbatim>\<open>cryptorand_init\<close> leaves; the model says nothing about
  objects filled in by other means.
\<close>

datatype fault = NullFunctionCall

section \<open>The Win32 backend\<close>

text \<open>
  First block of \<^verbatim>\<open>cryptorand_init__win32\<close> (bcrypt.dll). The flag says whether
  the block returned \<^verbatim>\<open>CRYPTORAND_SUCCESS\<close>; otherwise control falls out of it.
\<close>

definition init_bcrypt_block ::
  "os_env \<Rightarrow> cryptorand \<Rightarrow> os_call list \<Rightarrow> bool \<times> cryptorand \<times> os_call list" where
  "init_bcrypt_block e rng calls =
     (let h = os_LoadLibraryW e ''bcrypt.dll'';
          calls1 = calls @ [Call_LoadLibraryW ''bcrypt.dll'']
      in if h \<noteq> NULL then
           (let w = (win32 rng)
                  \<lparr>hBcryptDLL := h,
                   BCryptOpenAlgorithmProvider :=
                     os_GetProcAddress e h ''BCryptOpenAlgorithmProvider'',
                   BCryptCloseAlgorithmProvider :=
                     os_GetProcAddress e h ''BCryptCloseAlgorithmProvider'',
                   BCryptGenRandom := os_GetProcAddress e h ''BCryptGenRandom''\<rparr>;
                calls2 = calls1 @
                  [Call_GetProcAddress h ''BCryptOpenAlgorithmProvider'',
                   Call_GetProcAddress h ''BCryptCloseAlgorithmProvider'',
                   Call_GetProcAddress h ''BCryptGenRandom'']
            in if BCryptOpenAlgorithmProvider w \<noteq> NULL
                  \<and> BCryptCloseAlgorithmProvider w \<noteq> NULL
                  \<and> BCryptGenRandom w \<noteq> NULL
               then
                 (let w' = w\<lparr>hAlgorithm := snd (os_BCryptOpenAlgorithmProvider e)\<rparr>;
                      calls3 = calls2 @ [Call_BCryptOpenAlgorithmProvider]
                  in (fst (os_BCryptOpenAlgorithmProvider e) = 0,
                      rng\<lparr>win32 := w'\<rparr>, calls3))
               else (False, rng\<lparr>win32 := w\<rparr>, calls2))
         else (False, rng, calls1))"

text \<open>Second block of \<^verbatim>\<open>cryptorand_init__win32\<close> (advapi32.dll).\<close>

definition init_advapi_block ::
  "os_env \<Rightarrow> cryptorand \<Rightarrow> os_call list \<Rightarrow> bool \<times> cryptorand \<times> os_call list" where
  "init_advapi_block e rng calls =
     (let h = os_LoadLibraryW e ''advapi32.dll'';
          calls1 = calls @ [Call_LoadLibraryW ''advapi32.dll'']
      in if h \<noteq> NULL then
           (let w = (win32 rng)
                  \<lparr>hAdvapiDLL := h,
                   CryptAcquireContextW := os_GetProcAddress e h ''CryptAcquireContextW'',
                   CryptReleaseContext := os_GetProcAddress e h ''CryptReleaseContext'',
                   CryptGenRandom := os_GetProcAddress e h ''CryptGenRandom''\<rparr>;
                calls2 = calls1 @
                  [Call_GetProcAddress h ''CryptAcquireContextW'',
                   Call_GetProcAddress h ''CryptReleaseContext'',
                   Call_GetProcAddress h ''CryptGenRandom'']
            in if CryptAcquireContextW w \<noteq> NULL
                  \<and> CryptReleaseContext w \<noteq> NULL
                  \<and> CryptGenRandom w \<noteq> NULL
               then
                 (let w' = w\<lparr>hProvider := snd (os_CryptAcquireContextW e)\<rparr>;
                      calls3 = calls2 @ [Call_CryptAcquireContextW]
                  in (fst (os_CryptAcquireContextW e) \<noteq> 0,
                      rng\<lparr>win32 := w'\<rparr>, calls3))
               else (False, rng\<lparr>win32 := w\<rparr>, calls2))
         else (False, rng, calls1))"

definition cryptorand_init__win32 ::
  "os_env \<Rightarrow> cryptorand \<Rightarrow> os_call list \<Rightarrow> cryptorand_result \<times> cryptorand \<times> os_call list" where
  "cryptorand_init__win32 e rng calls =
     (case init_bcrypt_block e (rng\<lparr>win32 := zero_win32\<rparr>) calls of
        (True, rng1, calls1) \<Rightarrow> (CRYPTORAND_SUCCESS, rng1, calls1)
      | (False, rng1, calls1) \<Rightarrow>
          (case init_advapi_block e (rng1\<lparr>win32 := zero_win32\<rparr>) calls1 of
             (True, rng2, calls2) \<Rightarrow> (CRYPTORAND_SUCCESS, rng2, calls2)
           | (False, rng2, calls2) \<Rightarrow>
               (CRYPTORAND_ERROR, rng2\<lparr>win32 := zero_win32\<rparr>, calls2)))"

text \<open>
  \<^verbatim>\<open>cryptorand_uninit__win32\<close>: close the provider or release the context through
  the stored entry point, then free whichever libraries are recorded.
\<close>

definition cryptorand_uninit__win32 :: "cryptorand \<Rightarrow> os_call list \<Rightarrow> fault + os_call list" where
  "cryptorand_uninit__win32 rng calls =
     (let w = win32 rng;
          libs = (if hBcryptDLL w \<noteq> NULL then [Call_FreeLibrary (hBcryptDLL w)] else [])
               @ (if hAdvapiDLL w \<noteq> NULL then [Call_FreeLibrary (hAdvapiDLL w)] else [])
      in if hAlgorithm w \<noteq> NULL then
           (if BCryptCloseAlgorithmProvider w = NULL then Inl NullFunctionCall
            else Inr (calls @ [Call_BCryptCloseAlgorithmProvider (hAlgorithm w)] @ libs))
         else if hProvider w \<noteq> NULL then
           (if CryptReleaseContext w = NULL then Inl NullFunctionCall
            else Inr (calls @ [Call_CryptReleaseContext (hProvider w)] @ libs))
         else Inr (calls @ libs))"

definition cryptorand_generate__win32 ::
  "os_env \<Rightarrow> cryptorand \<Rightarrow> buffer \<Rightarrow> nat \<Rightarrow> os_call list
   \<Rightarrow> fault + (cryptorand_result \<times> buffer \<times> os_call list)" where
  "cryptorand_generate__win32 e rng pBufferOut byteCount calls =
     (let w = win32 rng
      in if byteCount > 0xFFFFFFFF then Inr (CRYPTORAND_TOO_BIG, pBufferOut, calls)
         else if hAlgorithm w \<noteq> NULL then
           (if BCryptGenRandom w = NULL then Inl NullFunctionCall
            else
              (let r = os_BCryptGenRandom e (hAlgorithm w) pBufferOut (ULONG_cast byteCount);
                   calls1 = calls @ [Call_BCryptGenRandom (hAlgorithm w) (ULONG_cast byteCount)]
               in if fst r \<noteq> 0 then Inr (CRYPTORAND_ERROR, snd r, calls1)
                  else Inr (CRYPTORAND_SUCCESS, snd r, calls1)))
         else if hProvider w \<noteq> NULL then
           (if CryptGenRandom w = NULL then Inl NullFunctionCall
            else
              (let r = os_CryptGenRandom e (hProvider w) (ULONG_cast byteCount) pBufferOut;
                   calls1 = calls @ [Call_CryptGenRandom (hProvider w) (ULONG_cast byteCount)]
               in if fst r = 0 then Inr (CRYPTORAND_ERROR, snd r, calls1)
                  else Inr (CRYPTORAND_SUCCESS, snd r, calls1)))
         else Inr (CRYPTORAND_SUCCESS, pBufferOut, calls))"

section \<open>The /dev/urandom backend\<close>

definition cryptorand_init__urandom ::
  "os_env \<Rightarrow> cryptorand \<Rightarrow> os_call list \<Rightarrow> cryptorand_result \<times> cryptorand \<times> os_call list" where
  "cryptorand_init__urandom e rng calls =
     (let rng1 = rng\<lparr>urandom := (urandom rng)\<lparr>pFile := os_fopen e ''/dev/urandom'' ''rb''\<rparr>\<rparr>;
          calls1 = calls @ [Call_fopen ''/dev/urandom'']
      in if pFile (urandom rng1) = NULL then (CRYPTORAND_ERROR, rng1, calls1)
         else (CRYPTORAND_SUCCESS, rng1, calls1))"

definition cryptorand_uninit__urandom :: "cryptorand \<Rightarrow> os_call list \<Rightarrow> os_call list" where
  "cryptorand_uninit__urandom rng calls =
     (if pFile (urandom rng) = NULL then calls
      else calls @ [Call_fclose (pFile (urandom rng))])"

definition cryptorand_generate__urandom ::
  "os_env \<Rightarrow> cryptorand \<Rightarrow> buffer \<Rightarrow> nat \<Rightarrow> os_call list
   \<Rightarrow> cryptorand_result \<times> buffer \<times> os_call list" where
  "cryptorand_generate__urandom e rng pBufferOut byteCount calls =
     (if pFile (urandom rng) = NULL then (CRYPTORAND_INVALID_OPERATION, pBufferOut, calls)
      else
        (let r = os_fread e pBufferOut 1 byteCount (pFile (urandom rng));
             calls1 = calls @ [Call_fread (pFile (urandom rng)) byteCount]
         in if fst r < byteCount then (CRYPTORAND_ERROR, snd r, calls1)
            else (CRYPTORAND_SUCCESS, snd r, calls1)))"

section \<open>The public functions\<close>

text \<open>
  \<open>pRNG\<close> is \<open>None\<close> for the null pointer and \<open>Some rng\<close> for a pointer to an object
  holding \<open>rng\<close>; the functions return what the pointer refers to afterwards.
\<close>

definition cryptorand_init ::
  "platform \<Rightarrow> os_env \<Rightarrow> cryptorand option \<Rightarrow> os_call list
   \<Rightarrow> cryptorand_result \<times> cryptorand option \<times> os_call list" where
  "cryptorand_init p e pRNG calls =
     (case pRNG of
        None \<Rightarrow> (CRYPTORAND_INVALID_ARGS, None, calls)
      | Some rng0 \<Rightarrow>
          (case (case p of
                   Win32 \<Rightarrow> cryptorand_init__win32 e CRYPTORAND_ZERO_OBJECT calls
                 | Urandom \<Rightarrow> cryptorand_init__urandom e CRYPTORAND_ZERO_OBJECT calls
                 | Unsupported \<Rightarrow> (CRYPTORAND_NOT_IMPLEMENTED, CRYPTORAND_ZERO_OBJECT, calls)) of
             (result, rng, calls1) \<Rightarrow>
               if result \<noteq> CRYPTORAND_SUCCESS
               then (result, Some CRYPTORAND_ZERO_OBJECT, calls1)
               else (result, Some rng, calls1)))"

definition cryptorand_uninit ::
  "platform \<Rightarrow> cryptorand option \<Rightarrow> os_call list
   \<Rightarrow> fault + (cryptorand option \<times> os_call list)" where
  "cryptorand_uninit p pRNG calls =
     (case pRNG of
        None \<Rightarrow> Inr (None, calls)
      | Some rng \<Rightarrow>
          (case (case p of
                   Win32 \<Rightarrow> cryptorand_uninit__win32 rng calls
                 | Urandom \<Rightarrow> Inr (cryptorand_uninit__urandom rng calls)
                 | Unsupported \<Rightarrow> Inr calls) of
             Inl f \<Rightarrow> Inl f
           | Inr calls1 \<Rightarrow> Inr (Some CRYPTORAND_ZERO_OBJECT, calls1)))"

definition cryptorand_generate ::
  "platform \<Rightarrow> os_env \<Rightarrow> cryptorand option \<Rightarrow> buffer option \<Rightarrow> nat \<Rightarrow> os_call list
   \<Rightarrow> fault + (cryptorand_result \<times> buffer option \<times> os_call list)" where
  "cryptorand_generate p e pRNG pBufferOut byteCount calls =
     (case (pRNG, pBufferOut) of
        (Some rng, Some buf) \<Rightarrow>
          (case (case p of
                   Win32 \<Rightarrow> cryptorand_generate__win32 e rng buf byteCount calls
                 | Urandom \<Rightarrow> Inr (cryptorand_generate__urandom e rng buf byteCount calls)
                 | Unsupported \<Rightarrow> Inr (CRYPTORAND_NOT_IMPLEMENTED, buf, calls)) of
             Inl f \<Rightarrow> Inl f
           | Inr (result, buf1, calls1) \<Rightarrow>
               if result \<noteq> CRYPTORAND_SUCCESS
               then Inr (result, Some (CRYPTORAND_ZERO_MEMORY buf1 byteCount), calls1)
               else Inr (result, Some buf1, calls1))
      | _ \<Rightarrow> Inr (CRYPTORAND_INVALID_ARGS, pBufferOut, calls))"

section \<open>States of a source\<close>

text \<open>
  Which backend a source is using is read off the handles the dispatching code tests:
  \<^verbatim>\<open>hAlgorithm != NULL\<close> selects BCryptGenRandom, \<^verbatim>\<open>hProvider != NULL\<close>
  selects CryptGenRandom, and \<^verbatim>\<open>pFile == NULL\<close> is the uninitialised device
  source. On the /dev/urandom platform the device is the only backend and counts as
  the primary one.
\<close>

definition uninitialized :: "platform \<Rightarrow> cryptorand \<Rightarrow> bool" where
  "uninitialized p rng =
     (case p of
        Win32 \<Rightarrow> hAlgorithm (win32 rng) = NULL \<and> hProvider (win32 rng) = NULL
      | Urandom \<Rightarrow> pFile (urandom rng) = NULL
      | Unsupported \<Rightarrow> True)"

definition primary_active :: "platform \<Rightarrow> cryptorand \<Rightarrow> bool" where
  "primary_active p rng =
     (case p of
        Win32 \<Rightarrow> hAlgorithm (win32 rng) \<noteq> NULL
      | Urandom \<Rightarrow> pFile (urandom rng) \<noteq> NULL
      | Unsupported \<Rightarrow> False)"

definition fallback_active :: "platform \<Rightarrow> cryptorand \<Rightarrow> bool" where
  "fallback_active p rng =
     (case p of
        Win32 \<Rightarrow> hProvider (win32 rng) \<noteq> NULL
      | Urandom \<Rightarrow> False
      | Unsupported \<Rightarrow> False)"

definition exactly_one_state :: "platform \<Rightarrow> cryptorand \<Rightarrow> bool" where
  "exactly_one_state p rng =
     ((uninitialized p rng \<and> \<not> primary_active p rng \<and> \<not> fallback_active p rng)
      \<or> (primary_active p rng \<and> \<not> uninitialized p rng \<and> \<not> fallback_active p rng)
      \<or> (fallback_active p rng \<and> \<not> uninitialized p rng \<and> \<not> primary_active p rng))"

text \<open>
  A backend is live in a source when the source holds any handle of it: the loaded
  library or the opened provider/context, or the open device file.
\<close>

definition live_backends :: "cryptorand \<Rightarrow> bool list" where
  "live_backends rng =
     filter (\<lambda>b. b)
       [hBcryptDLL (win32 rng) \<noteq> NULL \<or> hAlgorithm (win32 rng) \<noteq> NULL,
        hAdvapiDLL (win32 rng) \<noteq> NULL \<or> hProvider (win32 rng) \<noteq> NULL,
        pFile (urandom rng) \<noteq> NULL]"

definition at_most_one_backend_live :: "cryptorand \<Rightarrow> bool" where
  "at_most_one_backend_live rng = (length (live_backends rng) \<le> 1)"

text \<open>
  The shape of the \<^verbatim>\<open>win32\<close> member after a successful first block, and after a
  successful second block, of \<^verbatim>\<open>cryptorand_init__win32\<close>.
\<close>

definition modern_shape :: "win32_backend \<Rightarrow> bool" where
  "modern_shape w =
     (hBcryptDLL w \<noteq> NULL \<and> BCryptOpenAlgorithmProvider w \<noteq> NULL
      \<and> BCryptCloseAlgorithmProvider w \<noteq> NULL \<and> BCryptGenRandom w \<noteq> NULL
      \<and> hAlgorithm w \<noteq> NULL
      \<and> hAdvapiDLL w = NULL \<and> CryptAcquireContextW w = NULL
      \<and> CryptReleaseContext w = NULL \<and> CryptGenRandom w = NULL \<and> hProvider w = NULL)"

definition legacy_shape :: "win32_backend \<Rightarrow> bool" where
  "legacy_shape w =
     (hAdvapiDLL w \<noteq> NULL \<and> CryptAcquireContextW w \<noteq> NULL
      \<and> CryptReleaseContext w \<noteq> NULL \<and> CryptGenRandom w \<noteq> NULL
      \<and> hProvider w \<noteq> NULL
      \<and> hBcryptDLL w = NULL \<and> BCryptOpenAlgorithmProvider w = NULL
      \<and> BCryptCloseAlgorithmProvider w = NULL \<and> BCryptGenRandom w = NULL
      \<and> hAlgorithm w = NULL)"

definition well_formed :: "platform \<Rightarrow> cryptorand \<Rightarrow> bool" where
  "well_formed p rng =
     (case p of
        Win32 \<Rightarrow>
          urandom rng = zero_urandom
          \<and> (win32 rng = zero_win32 \<or> modern_shape (win32 rng) \<or> legacy_shape (win32 rng))
      | Urandom \<Rightarrow> win32 rng = zero_win32
      | Unsupported \<Rightarrow> rng = CRYPTORAND_ZERO_OBJECT)"

text \<open>
  What \<^verbatim>\<open>cryptorand_uninit__win32\<close> relies on: the entry point it is about to call
  through is there.
\<close>

definition entry_points_present :: "cryptorand \<Rightarrow> bool" where
  "entry_points_present rng =
     (if hAlgorithm (win32 rng) \<noteq> NULL then BCryptCloseAlgorithmProvider (win32 rng) \<noteq> NULL
      else if hProvider (win32 rng) \<noteq> NULL then CryptReleaseContext (win32 rng) \<noteq> NULL
      else True)"

text \<open>
  The services' side of the contract: a provider or context reported as opened comes
  with a handle that is not null.
\<close>

definition os_handles_valid :: "os_env \<Rightarrow> bool" where
  "os_handles_valid e =
     ((fst (os_BCryptOpenAlgorithmProvider e) = 0 \<longrightarrow> snd (os_BCryptOpenAlgorithmProvider e) \<noteq> NULL)
      \<and> (fst (os_CryptAcquireContextW e) \<noteq> 0 \<longrightarrow> snd (os_CryptAcquireContextW e) \<noteq> NULL))"

section \<open>Sequences of operations on one source\<close>

datatype operation =
    Op_init os_env
  | Op_generate os_env "buffer option" nat
  | Op_uninit

fun step ::
  "platform \<Rightarrow> operation \<Rightarrow> cryptorand \<times> os_call list \<Rightarrow> fault + (cryptorand \<times> os_call list)" where
  "step p (Op_init e) (rng, calls) =
     (case cryptorand_init p e (Some rng) calls of
        (r, Some rng1, calls1) \<Rightarrow> Inr (rng1, calls1)
      | (r, None, calls1) \<Rightarrow> Inr (rng, calls1))"
| "step p (Op_generate e pBufferOut byteCount) (rng, calls) =
     (case cryptorand_generate p e (Some rng) pBufferOut byteCount calls of
        Inl f \<Rightarrow> Inl f
      | Inr (r, b, calls1) \<Rightarrow> Inr (rng, calls1))"
| "step p Op_uninit (rng, calls) =
     (case cryptorand_uninit p (Some rng) calls of
        Inl f \<Rightarrow> Inl f
      | Inr (Some rng1, calls1) \<Rightarrow> Inr (rng1, calls1)
      | Inr (None, calls1) \<Rightarrow> Inr (rng, calls1))"

text \<open>The states reached after each operation of a sequence, unless one faults.\<close>

fun run ::
  "platform \<Rightarrow> operation list \<Rightarrow> cryptorand \<times> os_call list
   \<Rightarrow> fault + (cryptorand \<times> os_call list) list" where
  "run p [] s = Inr []"
| "run p (x # xs) s =
     (case step p x s of
        Inl f \<Rightarrow> Inl f
      | Inr s1 \<Rightarrow> (case run p xs s1 of Inl f \<Rightarrow> Inl f | Inr tr \<Rightarrow> Inr (s1 # tr)))"

fun init_envs :: "operation list \<Rightarrow> os_env list" where
  "init_envs [] = []"
| "init_envs (Op_init e # xs) = e # init_envs xs"
| "init_envs (x # xs) = init_envs xs"

section \<open>Example environments and objects\<close>

text \<open>Every service fails or is absent.\<close>

definition env_down :: os_env where
  "env_down =
     \<lparr>os_LoadLibraryW = (\<lambda>name. NULL),
      os_GetProcAddress = (\<lambda>h name. NULL),
      os_BCryptOpenAlgorithmProvider = (1, NULL),
      os_BCryptGenRandom = (\<lambda>h buf n. (1, buf)),
      os_CryptAcquireContextW = (0, NULL),
      os_CryptGenRandom = (\<lambda>h n buf. (0, buf)),
      os_fopen = (\<lambda>path mode. NULL),
      os_fread = (\<lambda>buf size count f. (0, buf))\<rparr>"

text \<open>
  bcrypt.dll loads (module 1) but exports none of the three entry points;
  advapi32.dll loads (module 2), exports its three entry points and acquires
  context 6, and CryptGenRandom fills the buffer with 0x5A.
\<close>

definition env_legacy_only :: os_env where
  "env_legacy_only =
     env_down
       \<lparr>os_LoadLibraryW :=
          (\<lambda>name. if name = ''bcrypt.dll'' then 1 else if name = ''advapi32.dll'' then 2 else NULL),
        os_GetProcAddress :=
          (\<lambda>h name. if h = 2 then
                       (if name = ''CryptAcquireContextW'' then 3
                        else if name = ''CryptReleaseContext'' then 4
                        else if name = ''CryptGenRandom'' then 5 else NULL)
                     else NULL),
        os_CryptAcquireContextW := (1, 6),
        os_CryptGenRandom := (\<lambda>h n buf. (1, (\<lambda>i. if i < n then 0x5A else buf i)))\<rparr>"

text \<open>
  /dev/urandom opens as stream 7; a read delivers one byte fewer than asked for
  (nothing for an empty request).
\<close>

definition env_short_read :: os_env where
  "env_short_read =
     env_down
       \<lparr>os_fopen := (\<lambda>path mode. 7),
        os_fread :=
          (\<lambda>buf size count f. (count - 1, (\<lambda>i. if i < count - 1 then 0x5A else buf i)))\<rparr>"

text \<open>A buffer holding the sentinel 0xAA everywhere.\<close>

definition sentinel :: buffer where
  "sentinel = (\<lambda>i. 0xAA)"

text \<open>
  Stale content, as an object may hold before it is first initialised: a provider
  handle is recorded and every entry point is null.
\<close>

definition rng_no_close :: cryptorand where
  "rng_no_close = CRYPTORAND_ZERO_OBJECT\<lparr>win32 := zero_win32\<lparr>hAlgorithm := 1\<rparr>\<rparr>"

text \<open>An object with open device stream 7.\<close>

definition rng_device :: cryptorand where
  "rng_device = CRYPTORAND_ZERO_OBJECT\<lparr>urandom := \<lparr>pFile = 7\<rparr>\<rparr>"

text \<open>
  The object \<^verbatim>\<open>cryptorand_init\<close> produces under \<open>env_legacy_only\<close>: the legacy
  backend with module 2, entry points 3, 4, 5 and context 6.
\<close>

definition rng_legacy :: cryptorand where
  "rng_legacy =
     CRYPTORAND_ZERO_OBJECT
       \<lparr>win32 := zero_win32
          \<lparr>hAdvapiDLL := 2, CryptAcquireContextW := 3, CryptReleaseContext := 4,
           CryptGenRandom := 5, hProvider := 6\<rparr>\<rparr>"

section \<open>Derived notions\<close>

text \<open>
  The three properties asked of a source between operations: it is in exactly one
  state, it holds handles of at most one backend, and when it is uninitialised every
  field is null.
\<close>

definition source_invariant :: "platform \<Rightarrow> cryptorand \<Rightarrow> bool" where
  "source_invariant p rng =
     (exactly_one_state p rng \<and> at_most_one_backend_live rng
      \<and> (uninitialized p rng \<longrightarrow> rng = CRYPTORAND_ZERO_OBJECT))"

text \<open>The modules released by a sequence of service calls, in order.\<close>

fun freed_modules :: "os_call list \<Rightarrow> ptr list" where
  "freed_modules [] = []"
| "freed_modules (Call_FreeLibrary h # xs) = h # freed_modules xs"
| "freed_modules (x # xs) = freed_modules xs"

section \<open>Auxiliary facts\<close>

lemma zero_memory_zero: "i < sz \<Longrightarrow> CRYPTORAND_ZERO_MEMORY p sz i = 0"
  by (simp add: CRYPTORAND_ZERO_MEMORY_def)

lemma zero_memory_frame: "sz \<le> i \<Longrightarrow> CRYPTORAND_ZERO_MEMORY p sz i = p i"
  by (simp add: CRYPTORAND_ZERO_MEMORY_def)

lemma ULONG_cast_id: "n \<le> 0xFFFFFFFF \<Longrightarrow> ULONG_cast n = n"
  by (simp add: ULONG_cast_def)

lemma freed_modules_append: "freed_modules (xs @ ys) = freed_modules xs @ freed_modules ys"
  by (induction xs rule: freed_modules.induct) simp_all

lemma well_formed_zero: "well_formed p CRYPTORAND_ZERO_OBJECT"
  by (cases p) (simp_all add: well_formed_def CRYPTORAND_ZERO_OBJECT_def)

lemma well_formed_entry_points: "well_formed Win32 rng \<Longrightarrow> entry_points_present rng"
  by (auto simp: well_formed_def entry_points_present_def modern_shape_def legacy_shape_def
      zero_win32_def)

lemma entry_points_zero_win32: "win32 rng = zero_win32 \<Longrightarrow> entry_points_present rng"
  by (simp add: entry_points_present_def zero_win32_def)

lemma well_formed_states:
  assumes "well_formed p rng"
  shows "exactly_one_state p rng" and "at_most_one_backend_live rng"
    and "uninitialized p rng \<Longrightarrow> rng = CRYPTORAND_ZERO_OBJECT"
proof -
  show "exactly_one_state p rng"
    using assms
    by (cases p)
      (auto simp: well_formed_def exactly_one_state_def uninitialized_def primary_active_def
        fallback_active_def modern_shape_def legacy_shape_def zero_win32_def
        CRYPTORAND_ZERO_OBJECT_def zero_urandom_def)
  show "at_most_one_backend_live rng"
    using assms
    by (cases p)
      (auto simp: well_formed_def at_most_one_backend_live_def live_backends_def
        modern_shape_def legacy_shape_def zero_win32_def CRYPTORAND_ZERO_OBJECT_def
        zero_urandom_def)
  show "rng = CRYPTORAND_ZERO_OBJECT" if "uninitialized p rng"
    using assms that
    by (cases p)
      (auto simp: well_formed_def uninitialized_def modern_shape_def legacy_shape_def
        zero_win32_def CRYPTORAND_ZERO_OBJECT_def zero_urandom_def)
qed

lemma well_formed_invariant: "well_formed p rng \<Longrightarrow> source_invariant p rng"
  using well_formed_states [of p rng] by (simp add: source_invariant_def)

section \<open>Initialisation\<close>

subsection \<open>The two blocks of the Win32 initialiser\<close>

lemma init_bcrypt_block_shape:
  assumes "init_bcrypt_block e (rng\<lparr>win32 := zero_win32\<rparr>) calls = (True, rng1, calls1)"
    and "os_handles_valid e"
  shows "modern_shape (win32 rng1) \<and> urandom rng1 = urandom rng"
  using assms
  by (auto simp: init_bcrypt_block_def Let_def modern_shape_def zero_win32_def
      os_handles_valid_def split: if_splits)

lemma init_bcrypt_block_urandom:
  "init_bcrypt_block e rng calls = (b, rng1, calls1) \<Longrightarrow> urandom rng1 = urandom rng"
  by (auto simp: init_bcrypt_block_def Let_def split: if_splits)

lemma init_advapi_block_urandom:
  "init_advapi_block e rng calls = (b, rng1, calls1) \<Longrightarrow> urandom rng1 = urandom rng"
  by (auto simp: init_advapi_block_def Let_def split: if_splits)

lemma init_advapi_block_shape:
  assumes "init_advapi_block e (rng\<lparr>win32 := zero_win32\<rparr>) calls = (True, rng1, calls1)"
    and "os_handles_valid e"
  shows "legacy_shape (win32 rng1)"
  using assms
  by (auto simp: init_advapi_block_def Let_def legacy_shape_def zero_win32_def
      os_handles_valid_def split: if_splits)

lemma init_bcrypt_block_entry_points:
  "init_bcrypt_block e (rng\<lparr>win32 := zero_win32\<rparr>) calls = (True, rng1, calls1) \<Longrightarrow>
   entry_points_present rng1"
  by (auto simp: init_bcrypt_block_def Let_def entry_points_present_def zero_win32_def
      split: if_splits)

lemma init_advapi_block_entry_points:
  "init_advapi_block e (rng\<lparr>win32 := zero_win32\<rparr>) calls = (True, rng1, calls1) \<Longrightarrow>
   entry_points_present rng1"
  by (auto simp: init_advapi_block_def Let_def entry_points_present_def zero_win32_def
      split: if_splits)

lemma init_bcrypt_block_frees:
  "freed_modules (snd (snd (init_bcrypt_block e rng calls))) = freed_modules calls"
  by (simp add: init_bcrypt_block_def Let_def freed_modules_append)

lemma init_advapi_block_frees:
  "freed_modules (snd (snd (init_advapi_block e rng calls))) = freed_modules calls"
  by (simp add: init_advapi_block_def Let_def freed_modules_append)

subsection \<open>The Win32 initialiser\<close>

text \<open>
  With services that hand out non-null handles, the initialiser ends in one of three
  shapes: the modern backend, the legacy backend, or failure with a zeroed member.
\<close>

lemma init__win32_cases:
  assumes "cryptorand_init__win32 e rng calls = (r, rng1, calls1)"
    and "os_handles_valid e"
  shows "urandom rng1 = urandom rng \<and>
         (if r = CRYPTORAND_SUCCESS then modern_shape (win32 rng1) \<or> legacy_shape (win32 rng1)
          else r = CRYPTORAND_ERROR \<and> win32 rng1 = zero_win32)"
proof (cases "init_bcrypt_block e (rng\<lparr>win32 := zero_win32\<rparr>) calls")
  case (fields b1 rngA callsA)
  note A = this
  have uA: "urandom rngA = urandom rng"
    using init_bcrypt_block_urandom [OF A] by simp
  show ?thesis
  proof (cases b1)
    case True
    with A assms init_bcrypt_block_shape [of e rng calls rngA callsA]
    show ?thesis by (auto simp: cryptorand_init__win32_def)
  next
    case False
    note nb = this
    show ?thesis
    proof (cases "init_advapi_block e (rngA\<lparr>win32 := zero_win32\<rparr>) callsA")
      case (fields b2 rngB callsB)
      note B = this
      have uB: "urandom rngB = urandom rng"
        using init_advapi_block_urandom [OF B] uA by simp
      show ?thesis
      proof (cases b2)
        case True
        with A B nb assms uB init_advapi_block_shape [of e rngA callsA rngB callsB]
        show ?thesis by (auto simp: cryptorand_init__win32_def)
      next
        case False
        with A B nb assms uB show ?thesis
          by (auto simp: cryptorand_init__win32_def)
      qed
    qed
  qed
qed

lemma init__win32_entry_points:
  "cryptorand_init__win32 e rng calls = (r, rng1, calls1) \<Longrightarrow> entry_points_present rng1"
  by (auto simp: cryptorand_init__win32_def entry_points_zero_win32
      dest: init_bcrypt_block_entry_points init_advapi_block_entry_points
      split: prod.splits bool.splits)

text \<open>No path through the Win32 initialiser calls \<^verbatim>\<open>FreeLibrary\<close>.\<close>

lemma init__win32_frees:
  "freed_modules (snd (snd (cryptorand_init__win32 e rng calls))) = freed_modules calls"
proof -
  obtain b1 rngA callsA where
    A: "init_bcrypt_block e (rng\<lparr>win32 := zero_win32\<rparr>) calls = (b1, rngA, callsA)"
    by (cases "init_bcrypt_block e (rng\<lparr>win32 := zero_win32\<rparr>) calls") auto
  obtain b2 rngB callsB where
    B: "init_advapi_block e (rngA\<lparr>win32 := zero_win32\<rparr>) callsA = (b2, rngB, callsB)"
    by (cases "init_advapi_block e (rngA\<lparr>win32 := zero_win32\<rparr>) callsA") auto
  have fA: "freed_modules callsA = freed_modules calls"
    using init_bcrypt_block_frees [of e "rng\<lparr>win32 := zero_win32\<rparr>" calls] A by simp
  have fB: "freed_modules callsB = freed_modules callsA"
    using init_advapi_block_frees [of e "rngA\<lparr>win32 := zero_win32\<rparr>" callsA] B by simp
  show ?thesis
    using A B fA fB by (cases b1; cases b2) (simp_all add: cryptorand_init__win32_def)
qed

subsection \<open>The public initialiser\<close>

lemma init_some:
  "\<exists>r rng1 calls1. cryptorand_init p e (Some rng0) calls = (r, Some rng1, calls1)"
  by (cases p) (auto simp: cryptorand_init_def split: prod.splits)

lemma init_well_formed:
  assumes "cryptorand_init p e (Some rng0) calls = (r, Some rng1, calls1)"
    and "os_handles_valid e"
  shows "well_formed p rng1"
proof (cases p)
  case Win32
  obtain r' rng' calls' where W:
    "cryptorand_init__win32 e CRYPTORAND_ZERO_OBJECT calls = (r', rng', calls')"
    by (cases "cryptorand_init__win32 e CRYPTORAND_ZERO_OBJECT calls") auto
  from init__win32_cases [OF W assms(2)]
  have u: "urandom rng' = zero_urandom"
    and sh: "r' = CRYPTORAND_SUCCESS \<Longrightarrow> modern_shape (win32 rng') \<or> legacy_shape (win32 rng')"
    by (auto simp: CRYPTORAND_ZERO_OBJECT_def split: if_splits)
  show ?thesis
  proof (cases "r' = CRYPTORAND_SUCCESS")
    case True
    with assms(1) Win32 W have "rng1 = rng'" by (simp add: cryptorand_init_def)
    with u sh True Win32 show ?thesis by (auto simp: well_formed_def)
  next
    case False
    with assms(1) Win32 W have "rng1 = CRYPTORAND_ZERO_OBJECT" by (simp add: cryptorand_init_def)
    then show ?thesis by (simp add: well_formed_zero)
  qed
next
  case Urandom
  with assms(1) show ?thesis
    by (auto simp: cryptorand_init_def cryptorand_init__urandom_def Let_def well_formed_def
        CRYPTORAND_ZERO_OBJECT_def split: if_splits)
next
  case Unsupported
  with assms(1) show ?thesis
    by (auto simp: cryptorand_init_def well_formed_def)
qed

lemma init_entry_points:
  assumes "cryptorand_init Win32 e (Some rng0) calls = (r, Some rng1, calls1)"
  shows "entry_points_present rng1"
proof -
  obtain r' rng' calls' where W:
    "cryptorand_init__win32 e CRYPTORAND_ZERO_OBJECT calls = (r', rng', calls')"
    by (cases "cryptorand_init__win32 e CRYPTORAND_ZERO_OBJECT calls") auto
  have Z: "entry_points_present CRYPTORAND_ZERO_OBJECT"
    by (simp add: entry_points_zero_win32 CRYPTORAND_ZERO_OBJECT_def)
  from assms W have "rng1 = rng' \<or> rng1 = CRYPTORAND_ZERO_OBJECT"
    by (auto simp: cryptorand_init_def split: if_splits)
  with init__win32_entry_points [OF W] Z show ?thesis by auto
qed

text \<open>
  \<^verbatim>\<open>cryptorand_init\<close> releases no module, on any platform and whatever the services
  answer: the modules released afterwards are those released before.
\<close>

lemma init_frees_nothing:
  "freed_modules (snd (snd (cryptorand_init p e pRNG calls))) = freed_modules calls"
proof (cases pRNG)
  case None
  then show ?thesis by (simp add: cryptorand_init_def)
next
  case (Some rng0)
  show ?thesis
  proof (cases p)
    case Win32
    obtain r rng1 calls1 where
      W: "cryptorand_init__win32 e CRYPTORAND_ZERO_OBJECT calls = (r, rng1, calls1)"
      by (cases "cryptorand_init__win32 e CRYPTORAND_ZERO_OBJECT calls") auto
    with init__win32_frees [of e CRYPTORAND_ZERO_OBJECT calls]
    have "freed_modules calls1 = freed_modules calls" by simp
    with W Some Win32 show ?thesis by (simp add: cryptorand_init_def)
  next
    case Urandom
    with Some show ?thesis
      by (simp add: cryptorand_init_def cryptorand_init__urandom_def Let_def
          freed_modules_append)
  next
    case Unsupported
    with Some show ?thesis by (simp add: cryptorand_init_def)
  qed
qed

lemma init_env_down:
  "cryptorand_init Win32 env_down (Some rng_no_close) [] =
     (CRYPTORAND_ERROR, Some CRYPTORAND_ZERO_OBJECT,
      [Call_LoadLibraryW ''bcrypt.dll'', Call_LoadLibraryW ''advapi32.dll''])"
  by (simp add: cryptorand_init_def cryptorand_init__win32_def init_bcrypt_block_def
      init_advapi_block_def env_down_def)

text \<open>
  C4. When \<^verbatim>\<open>cryptorand_init\<close> does not return \<^verbatim>\<open>CRYPTORAND_SUCCESS\<close>, one of
  three cases holds, told apart by the code returned: the pointer was null and the
  code is \<^verbatim>\<open>CRYPTORAND_INVALID_ARGS\<close> (there is no object); or the platform has no
  backend, the code is \<^verbatim>\<open>CRYPTORAND_NOT_IMPLEMENTED\<close> and the object is all zero;
  or a backend failed, the code is \<^verbatim>\<open>CRYPTORAND_ERROR\<close> and the object is all
  zero. No assumption on the services is needed.
\<close>

theorem init_failure_zeroes:
  assumes "cryptorand_init p e pRNG calls = (r, pRNG1, calls1)"
    and "r \<noteq> CRYPTORAND_SUCCESS"
  shows "(pRNG = None \<and> pRNG1 = None \<and> r = CRYPTORAND_INVALID_ARGS)
       \<or> (pRNG \<noteq> None \<and> pRNG1 = Some CRYPTORAND_ZERO_OBJECT
            \<and> p = Unsupported \<and> r = CRYPTORAND_NOT_IMPLEMENTED)
       \<or> (pRNG \<noteq> None \<and> pRNG1 = Some CRYPTORAND_ZERO_OBJECT
            \<and> p \<noteq> Unsupported \<and> r = CRYPTORAND_ERROR)"
proof (cases pRNG)
  case None
  with assms show ?thesis by (simp add: cryptorand_init_def)
next
  case (Some rng0)
  show ?thesis
  proof (cases p)
    case Win32
    have "fst (cryptorand_init__win32 e CRYPTORAND_ZERO_OBJECT calls) = CRYPTORAND_SUCCESS
          \<or> fst (cryptorand_init__win32 e CRYPTORAND_ZERO_OBJECT calls) = CRYPTORAND_ERROR"
      by (auto simp: cryptorand_init__win32_def split: prod.splits bool.splits)
    with assms Some Win32 show ?thesis
      by (auto simp: cryptorand_init_def split: prod.splits if_splits)
  next
    case Urandom
    with assms Some show ?thesis
      by (auto simp: cryptorand_init_def cryptorand_init__urandom_def Let_def split: if_splits)
  next
    case Unsupported
    with assms Some show ?thesis by (auto simp: cryptorand_init_def)
  qed
qed

text \<open>
  C4, at a concrete input: on Win32 with every service down, initialising an object
  that held stale values fails with \<^verbatim>\<open>CRYPTORAND_ERROR\<close> and leaves it all zero.
\<close>

theorem init_failure_zeroes_witness:
  "cryptorand_init Win32 env_down (Some rng_no_close) [] =
     (CRYPTORAND_ERROR, Some CRYPTORAND_ZERO_OBJECT,
      [Call_LoadLibraryW ''bcrypt.dll'', Call_LoadLibraryW ''advapi32.dll''])
   \<and> CRYPTORAND_ERROR \<noteq> CRYPTORAND_SUCCESS
   \<and> ((Some rng_no_close = None \<and> Some CRYPTORAND_ZERO_OBJECT = None
          \<and> CRYPTORAND_ERROR = CRYPTORAND_INVALID_ARGS)
       \<or> (Some rng_no_close \<noteq> None \<and> Some CRYPTORAND_ZERO_OBJECT = Some CRYPTORAND_ZERO_OBJECT
            \<and> Win32 = Unsupported \<and> CRYPTORAND_ERROR = CRYPTORAND_NOT_IMPLEMENTED)
       \<or> (Some rng_no_close \<noteq> None \<and> Some CRYPTORAND_ZERO_OBJECT = Some CRYPTORAND_ZERO_OBJECT
            \<and> Win32 \<noteq> Unsupported \<and> CRYPTORAND_ERROR = CRYPTORAND_ERROR))"
proof -
  have n: "CRYPTORAND_ERROR \<noteq> CRYPTORAND_SUCCESS" by simp
  from init_failure_zeroes [OF init_env_down n] init_env_down n
  show ?thesis by (intro conjI)
qed

text \<open>
  C6. The claim asks that a failed attempt at the modern backend releases the module
  it loaded before the legacy backend is tried. Under \<open>env_legacy_only\<close> bcrypt.dll
  loads as module 1 and its entry points do not resolve. The initialiser then goes on
  to advapi32.dll and succeeds (the primary failure is absorbed), but the calls it
  made contain no \<^verbatim>\<open>FreeLibrary\<close> of module 1: the handle was only overwritten
  with null. The later release frees module 2 alone, so module 1 stays loaded.
\<close>

theorem init_win32_leaks_bcrypt_module:
  "cryptorand_init Win32 env_legacy_only (Some CRYPTORAND_ZERO_OBJECT) [] =
     (CRYPTORAND_SUCCESS, Some rng_legacy,
      [Call_LoadLibraryW ''bcrypt.dll'',
       Call_GetProcAddress 1 ''BCryptOpenAlgorithmProvider'',
       Call_GetProcAddress 1 ''BCryptCloseAlgorithmProvider'',
       Call_GetProcAddress 1 ''BCryptGenRandom'',
       Call_LoadLibraryW ''advapi32.dll'',
       Call_GetProcAddress 2 ''CryptAcquireContextW'',
       Call_GetProcAddress 2 ''CryptReleaseContext'',
       Call_GetProcAddress 2 ''CryptGenRandom'',
       Call_CryptAcquireContextW])
   \<and> cryptorand_uninit Win32 (Some rng_legacy) [] =
       Inr (Some CRYPTORAND_ZERO_OBJECT, [Call_CryptReleaseContext 6, Call_FreeLibrary 2])"
  by (simp add: cryptorand_init_def cryptorand_init__win32_def init_bcrypt_block_def
      init_advapi_block_def env_legacy_only_def env_down_def rng_legacy_def
      CRYPTORAND_ZERO_OBJECT_def zero_win32_def cryptorand_uninit_def
      cryptorand_uninit__win32_def)

section \<open>Release\<close>

lemma uninit_entry_points:
  assumes "p = Win32 \<Longrightarrow> entry_points_present rng"
  shows "\<exists>calls1. cryptorand_uninit p (Some rng) calls = Inr (Some CRYPTORAND_ZERO_OBJECT, calls1)"
  using assms
  by (cases p)
    (auto simp: cryptorand_uninit_def cryptorand_uninit__win32_def entry_points_present_def
      Let_def split: if_splits)

lemma uninit_zero:
  "cryptorand_uninit p (Some CRYPTORAND_ZERO_OBJECT) calls = Inr (Some CRYPTORAND_ZERO_OBJECT, calls)"
  by (cases p)
    (simp_all add: cryptorand_uninit_def cryptorand_uninit__win32_def
      cryptorand_uninit__urandom_def CRYPTORAND_ZERO_OBJECT_def zero_win32_def zero_urandom_def)

text \<open>
  C10. \<^verbatim>\<open>cryptorand_uninit(NULL)\<close> returns at once: on every platform it makes no
  service call (no teardown), cannot fault, and there is no object it could have
  touched.
\<close>

theorem uninit_null_is_noop:
  "cryptorand_uninit p None calls = Inr (None, calls)"
  by (simp add: cryptorand_uninit_def)

text \<open>
  C7. Release needs nothing of the objects the library itself produces. On the zeroed
  object it does not fault, makes no service call and leaves the object zeroed. On
  whatever any call of \<^verbatim>\<open>cryptorand_init\<close> leaves behind, failed or successful, on
  any platform and whatever the services answered, it does not fault and resets every
  field to zero; and a second release right after it does not fault, makes no further
  service call and leaves the same zeroed object.
\<close>

theorem release_resets_and_is_idempotent:
  "cryptorand_uninit p (Some CRYPTORAND_ZERO_OBJECT) calls =
     Inr (Some CRYPTORAND_ZERO_OBJECT, calls)
   \<and> (case cryptorand_init p e (Some rng0) calls0 of
        (r, pRNG1, calls1) \<Rightarrow>
          \<exists>calls2. cryptorand_uninit p pRNG1 calls1 = Inr (Some CRYPTORAND_ZERO_OBJECT, calls2)
                 \<and> cryptorand_uninit p (Some CRYPTORAND_ZERO_OBJECT) calls2 =
                     Inr (Some CRYPTORAND_ZERO_OBJECT, calls2))"
proof (intro conjI)
  show "cryptorand_uninit p (Some CRYPTORAND_ZERO_OBJECT) calls =
          Inr (Some CRYPTORAND_ZERO_OBJECT, calls)"
    by (rule uninit_zero)
  obtain r rng1 calls1 where I: "cryptorand_init p e (Some rng0) calls0 = (r, Some rng1, calls1)"
    using init_some by blast
  have "p = Win32 \<Longrightarrow> entry_points_present rng1"
    using I init_entry_points by blast
  from uninit_entry_points [of p rng1 calls1, OF this]
  obtain calls2 where
    U: "cryptorand_uninit p (Some rng1) calls1 = Inr (Some CRYPTORAND_ZERO_OBJECT, calls2)"
    by blast
  from I U
  show "case cryptorand_init p e (Some rng0) calls0 of
          (r, pRNG1, calls1) \<Rightarrow>
            \<exists>calls2. cryptorand_uninit p pRNG1 calls1 = Inr (Some CRYPTORAND_ZERO_OBJECT, calls2)
                   \<and> cryptorand_uninit p (Some CRYPTORAND_ZERO_OBJECT) calls2 =
                       Inr (Some CRYPTORAND_ZERO_OBJECT, calls2)"
    by (simp add: uninit_zero)
qed

text \<open>
  C7, at concrete inputs on Win32: release of the zeroed object, release after an
  initialisation that failed (every service down), and release after one that
  succeeded on the legacy backend.
\<close>

theorem release_resets_and_is_idempotent_witness:
  "cryptorand_uninit Win32 (Some CRYPTORAND_ZERO_OBJECT) [] =
     Inr (Some CRYPTORAND_ZERO_OBJECT, [])
   \<and> (case cryptorand_init Win32 env_down (Some rng_no_close) [] of
        (r, pRNG1, calls1) \<Rightarrow>
          \<exists>calls2. cryptorand_uninit Win32 pRNG1 calls1 = Inr (Some CRYPTORAND_ZERO_OBJECT, calls2)
                 \<and> cryptorand_uninit Win32 (Some CRYPTORAND_ZERO_OBJECT) calls2 =
                     Inr (Some CRYPTORAND_ZERO_OBJECT, calls2))
   \<and> (case cryptorand_init Win32 env_legacy_only (Some rng_no_close) [] of
        (r, pRNG1, calls1) \<Rightarrow>
          \<exists>calls2. cryptorand_uninit Win32 pRNG1 calls1 = Inr (Some CRYPTORAND_ZERO_OBJECT, calls2)
                 \<and> cryptorand_uninit Win32 (Some CRYPTORAND_ZERO_OBJECT) calls2 =
                     Inr (Some CRYPTORAND_ZERO_OBJECT, calls2))"
proof -
  note failed = release_resets_and_is_idempotent [of Win32 "[]" env_down rng_no_close "[]"]
  note succeeded =
    release_resets_and_is_idempotent [of Win32 "[]" env_legacy_only rng_no_close "[]"]
  from failed [THEN conjunct1] failed [THEN conjunct2] succeeded [THEN conjunct2]
  show ?thesis by (intro conjI)
qed

section \<open>Generation\<close>

text \<open>
  With both pointers non-null, every result other than success comes with the
  requested length zeroed.
\<close>

lemma generate_failure_zeroes:
  assumes "cryptorand_generate p e (Some rng) (Some buf) byteCount calls = Inr (r, b, calls1)"
    and "r \<noteq> CRYPTORAND_SUCCESS"
  shows "\<exists>buf1. b = Some (CRYPTORAND_ZERO_MEMORY buf1 byteCount)"
  using assms
  by (auto simp: cryptorand_generate_def split: platform.splits sum.splits prod.splits if_splits)

text \<open>The device backend refuses a source whose stream is null.\<close>

lemma generate_urandom_uninitialized:
  "pFile (urandom rng) = NULL \<Longrightarrow>
   cryptorand_generate Urandom e (Some rng) (Some buf) byteCount calls =
     Inr (CRYPTORAND_INVALID_OPERATION, Some (CRYPTORAND_ZERO_MEMORY buf byteCount), calls)"
  by (simp add: cryptorand_generate_def cryptorand_generate__urandom_def)

text \<open>
  On an active backend a success hands back the buffer exactly as the one service call
  left it, and that call asked for the full \<open>byteCount\<close>.
\<close>

lemma generate_modern_success:
  assumes "hAlgorithm (win32 rng) \<noteq> NULL"
    and "cryptorand_generate Win32 e (Some rng) (Some buf) byteCount calls =
           Inr (CRYPTORAND_SUCCESS, b, calls1)"
  shows "b = Some (snd (os_BCryptGenRandom e (hAlgorithm (win32 rng)) buf byteCount))
         \<and> calls1 = calls @ [Call_BCryptGenRandom (hAlgorithm (win32 rng)) byteCount]"
  using assms
  by (auto simp: cryptorand_generate_def cryptorand_generate__win32_def Let_def ULONG_cast_def
      split: if_splits)

lemma generate_legacy_success:
  assumes "hAlgorithm (win32 rng) = NULL" and "hProvider (win32 rng) \<noteq> NULL"
    and "cryptorand_generate Win32 e (Some rng) (Some buf) byteCount calls =
           Inr (CRYPTORAND_SUCCESS, b, calls1)"
  shows "b = Some (snd (os_CryptGenRandom e (hProvider (win32 rng)) byteCount buf))
         \<and> calls1 = calls @ [Call_CryptGenRandom (hProvider (win32 rng)) byteCount]"
  using assms
  by (auto simp: cryptorand_generate_def cryptorand_generate__win32_def Let_def ULONG_cast_def
      split: if_splits)

lemma generate_urandom_success:
  assumes "cryptorand_generate Urandom e (Some rng) (Some buf) byteCount calls =
             Inr (CRYPTORAND_SUCCESS, b, calls1)"
  shows "b = Some (snd (os_fread e buf 1 byteCount (pFile (urandom rng))))
         \<and> byteCount \<le> fst (os_fread e buf 1 byteCount (pFile (urandom rng)))
         \<and> calls1 = calls @ [Call_fread (pFile (urandom rng)) byteCount]"
  using assms
  by (auto simp: cryptorand_generate_def cryptorand_generate__urandom_def Let_def
      split: if_splits)

text \<open>
  C1. The claim asks for a zeroed buffer after every failure, invalid arguments
  included. With a null \<open>pRNG\<close> and a valid four-byte buffer holding 0xAA, on every
  platform \<^verbatim>\<open>cryptorand_generate\<close> returns \<^verbatim>\<open>CRYPTORAND_INVALID_ARGS\<close> from its
  first test, before the zeroing code, and the buffer still holds 0xAA.
\<close>

theorem generate_null_source_leaves_buffer:
  "cryptorand_generate p e None (Some sentinel) 4 calls =
     Inr (CRYPTORAND_INVALID_ARGS, Some sentinel, calls)
   \<and> sentinel 0 = 0xAA"
  by (simp add: cryptorand_generate_def sentinel_def)

text \<open>
  C2. The claim asks for \<^verbatim>\<open>CRYPTORAND_INVALID_OPERATION\<close> on a source that was never
  initialised. On Win32, with the all-zero object, neither handle test of
  \<^verbatim>\<open>cryptorand_generate__win32\<close> fires and the function falls through to
  \<^verbatim>\<open>return CRYPTORAND_SUCCESS\<close>: no service is called and the buffer is left as it
  was.
\<close>

theorem generate_win32_uninitialized_succeeds:
  "cryptorand_generate Win32 e (Some CRYPTORAND_ZERO_OBJECT) (Some sentinel) 4 calls =
     Inr (CRYPTORAND_SUCCESS, Some sentinel, calls)"
  by (simp add: cryptorand_generate_def cryptorand_generate__win32_def
      CRYPTORAND_ZERO_OBJECT_def zero_win32_def)

text \<open>
  C3. On Win32, whose generators take a 32-bit length, a request for more than
  0xFFFFFFFF bytes on any source returns \<^verbatim>\<open>CRYPTORAND_TOO_BIG\<close>; the requested
  length of the buffer is zeroed and the rest is untouched; and the service calls are
  those made before, so no generator was called: neither several times nor once with
  a truncated length.
\<close>

theorem generate_too_big:
  assumes "0xFFFFFFFF < byteCount"
  shows "\<exists>buf1. cryptorand_generate Win32 e (Some rng) (Some buf) byteCount calls =
                  Inr (CRYPTORAND_TOO_BIG, Some buf1, calls)
              \<and> (\<forall>i<byteCount. buf1 i = 0) \<and> (\<forall>i\<ge>byteCount. buf1 i = buf i)"
  using assms
  by (simp add: cryptorand_generate_def cryptorand_generate__win32_def
      CRYPTORAND_ZERO_MEMORY_def)

text \<open>
  C3, at a concrete input: 0x100000000 bytes asked of the initialised legacy backend.
\<close>

theorem generate_too_big_witness:
  "(0xFFFFFFFF :: nat) < 0x100000000
   \<and> (\<exists>buf1. cryptorand_generate Win32 env_legacy_only (Some rng_legacy) (Some sentinel)
               0x100000000 [] = Inr (CRYPTORAND_TOO_BIG, Some buf1, [])
          \<and> (\<forall>i<0x100000000. buf1 i = 0) \<and> (\<forall>i\<ge>0x100000000. buf1 i = sentinel i))"
proof -
  have h: "(0xFFFFFFFF :: nat) < 0x100000000" by simp
  from generate_too_big [OF h, of env_legacy_only rng_legacy sentinel "[]"] h
  show ?thesis by (intro conjI)
qed

text \<open>
  C8. The claim asks that a call returning success has written exactly the requested
  bytes of operating-system randomness. On Win32, with the all-zero object and a
  64-byte request, the call returns \<^verbatim>\<open>CRYPTORAND_SUCCESS\<close> although no service was
  called and all 64 bytes still hold the sentinel. (On an active backend the claim
  holds: see \<open>generate_modern_success\<close>, \<open>generate_legacy_success\<close> and
  \<open>generate_urandom_success\<close>.)
\<close>

theorem generate_win32_success_without_output:
  "cryptorand_generate Win32 env_legacy_only (Some CRYPTORAND_ZERO_OBJECT) (Some sentinel) 64 [] =
     Inr (CRYPTORAND_SUCCESS, Some sentinel, [])"
  by (simp add: cryptorand_generate_def cryptorand_generate__win32_def
      CRYPTORAND_ZERO_OBJECT_def zero_win32_def)

text \<open>
  C9. On the /dev/urandom backend with an open stream, when \<^verbatim>\<open>fread\<close> returns
  fewer items than requested, \<^verbatim>\<open>cryptorand_generate\<close> returns
  \<^verbatim>\<open>CRYPTORAND_ERROR\<close> after that single read, and the requested length of the
  buffer is zeroed, so nothing of the partial read reaches the caller.
\<close>

theorem short_read_is_error:
  assumes "pFile (urandom rng) \<noteq> NULL"
    and "fst (os_fread e buf 1 byteCount (pFile (urandom rng))) < byteCount"
  shows "\<exists>buf1. cryptorand_generate Urandom e (Some rng) (Some buf) byteCount calls =
                  Inr (CRYPTORAND_ERROR, Some buf1,
                       calls @ [Call_fread (pFile (urandom rng)) byteCount])
              \<and> (\<forall>i<byteCount. buf1 i = 0)"
  using assms
  by (simp add: cryptorand_generate_def cryptorand_generate__urandom_def Let_def
      CRYPTORAND_ZERO_MEMORY_def)

text \<open>
  C9, at a concrete input: four bytes asked of stream 7, of which the read delivers
  three.
\<close>

theorem short_read_is_error_witness:
  "pFile (urandom rng_device) \<noteq> NULL
   \<and> fst (os_fread env_short_read sentinel 1 4 (pFile (urandom rng_device))) < 4
   \<and> (\<exists>buf1. cryptorand_generate Urandom env_short_read (Some rng_device) (Some sentinel) 4 [] =
                  Inr (CRYPTORAND_ERROR, Some buf1,
                       [] @ [Call_fread (pFile (urandom rng_device)) 4])
              \<and> (\<forall>i<4. buf1 i = 0))"
proof -
  have h1: "pFile (urandom rng_device) \<noteq> NULL" by (simp add: rng_device_def)
  have h2: "fst (os_fread env_short_read sentinel 1 4 (pFile (urandom rng_device))) < 4"
    by (simp add: env_short_read_def env_down_def)
  from short_read_is_error [OF h1 h2, of "[]"] h1 h2
  show ?thesis by (intro conjI)
qed

section \<open>The life of a source\<close>

lemma generate_well_formed:
  assumes "well_formed p rng"
  shows "\<exists>r b calls1. cryptorand_generate p e (Some rng) pBufferOut byteCount calls = Inr (r, b, calls1)"
proof (cases pBufferOut)
  case None
  then show ?thesis by (simp add: cryptorand_generate_def)
next
  case (Some buf)
  show ?thesis
  proof (cases p)
    case Win32
    with assms have "win32 rng = zero_win32 \<or> modern_shape (win32 rng) \<or> legacy_shape (win32 rng)"
      by (simp add: well_formed_def)
    then have "\<exists>x. cryptorand_generate__win32 e rng buf byteCount calls = Inr x"
      by (auto simp: cryptorand_generate__win32_def Let_def modern_shape_def legacy_shape_def
          zero_win32_def)
    then obtain r b c where "cryptorand_generate__win32 e rng buf byteCount calls = Inr (r, b, c)"
      by (metis prod_cases3)
    with Win32 Some show ?thesis by (simp add: cryptorand_generate_def)
  next
    case Urandom
    with Some show ?thesis
      by (cases "cryptorand_generate__urandom e rng buf byteCount calls")
        (simp add: cryptorand_generate_def)
  next
    case Unsupported
    with Some show ?thesis by (simp add: cryptorand_generate_def)
  qed
qed

lemma step_well_formed:
  assumes "well_formed p rng"
    and "list_all os_handles_valid (init_envs [x])"
  shows "\<exists>rng1 calls1. step p x (rng, calls) = Inr (rng1, calls1) \<and> well_formed p rng1"
proof (cases x)
  case (Op_init e)
  obtain r rng1 calls1 where I: "cryptorand_init p e (Some rng) calls = (r, Some rng1, calls1)"
    using init_some by blast
  from assms(2) Op_init have "os_handles_valid e" by simp
  from init_well_formed [OF I this] I Op_init show ?thesis by simp
next
  case (Op_generate e pBufferOut byteCount)
  from generate_well_formed [OF assms(1), of e pBufferOut byteCount calls]
  obtain r b calls1 where
    "cryptorand_generate p e (Some rng) pBufferOut byteCount calls = Inr (r, b, calls1)"
    by blast
  with Op_generate assms(1) show ?thesis by simp
next
  case Op_uninit
  have "p = Win32 \<Longrightarrow> entry_points_present rng"
    using assms(1) well_formed_entry_points by simp
  from uninit_entry_points [of p rng calls, OF this]
  obtain calls1 where
    "cryptorand_uninit p (Some rng) calls = Inr (Some CRYPTORAND_ZERO_OBJECT, calls1)"
    by blast
  with Op_uninit show ?thesis by (simp add: well_formed_zero)
qed

lemma init_envs_Cons:
  "list_all P (init_envs (x # xs)) = (list_all P (init_envs [x]) \<and> list_all P (init_envs xs))"
  by (cases x) simp_all

lemma run_well_formed:
  assumes "well_formed p rng"
    and "list_all os_handles_valid (init_envs xs)"
  shows "\<exists>tr. run p xs (rng, calls) = Inr tr \<and> length tr = length xs
              \<and> (\<forall>s \<in> set tr. well_formed p (fst s))"
  using assms
proof (induction xs arbitrary: rng calls)
  case Nil
  then show ?case by simp
next
  case (Cons x xs)
  from Cons.prems(2) have hx: "list_all os_handles_valid (init_envs [x])"
    and hxs: "list_all os_handles_valid (init_envs xs)"
    using init_envs_Cons [of os_handles_valid x xs] by simp_all
  from step_well_formed [OF Cons.prems(1) hx, of calls]
  obtain rng1 calls1 where S: "step p x (rng, calls) = Inr (rng1, calls1)"
    and W: "well_formed p rng1" by blast
  from Cons.IH [OF W hxs, of calls1]
  obtain tr where R: "run p xs (rng1, calls1) = Inr tr" and L: "length tr = length xs"
    and A: "\<forall>s \<in> set tr. well_formed p (fst s)" by blast
  from S R L A W show ?case by simp
qed

text \<open>
  C5. Take any sequence of initialise, generate and release operations on one object
  that starts with an initialise (the object may hold anything before), on any
  platform, where the services report an opened provider or context only together
  with a non-null handle. Then no operation faults, and after each one the object is
  in exactly one of the states uninitialised, primary active, fallback active; it
  holds handles of at most one backend; and if it is uninitialised all its fields are
  null.
\<close>

theorem lifecycle_states:
  assumes "list_all os_handles_valid (init_envs (Op_init e0 # xs))"
  shows "\<exists>tr. run p (Op_init e0 # xs) (rng0, calls0) = Inr tr
              \<and> length tr = Suc (length xs)
              \<and> (\<forall>s \<in> set tr. source_invariant p (fst s))"
proof -
  from assms have v0: "list_all os_handles_valid (init_envs [Op_init e0])"
    and vs: "list_all os_handles_valid (init_envs xs)" by simp_all
  obtain r rng1 calls1 where I: "cryptorand_init p e0 (Some rng0) calls0 = (r, Some rng1, calls1)"
    using init_some by blast
  from v0 have "os_handles_valid e0" by simp
  from init_well_formed [OF I this] have W: "well_formed p rng1" .
  from run_well_formed [OF W vs, of calls1]
  obtain tr where R: "run p xs (rng1, calls1) = Inr tr" and L: "length tr = length xs"
    and A: "\<forall>s \<in> set tr. well_formed p (fst s)" by blast
  from I R have "run p (Op_init e0 # xs) (rng0, calls0) = Inr ((rng1, calls1) # tr)" by simp
  moreover have "\<forall>s \<in> set ((rng1, calls1) # tr). source_invariant p (fst s)"
    using W A well_formed_invariant by auto
  ultimately show ?thesis using L by simp
qed

text \<open>
  C5, at a concrete input: on Win32, starting from an object with stale content:
  initialise (legacy backend), generate, release, generate again, an initialise that
  fails, release.
\<close>

theorem lifecycle_states_witness:
  "os_handles_valid env_legacy_only \<and> os_handles_valid env_down
   \<and> (\<exists>tr. run Win32
          (Op_init env_legacy_only #
           [Op_generate env_legacy_only (Some sentinel) 4, Op_uninit,
            Op_generate env_down (Some sentinel) 4, Op_init env_down, Op_uninit])
          (rng_no_close, []) = Inr tr
        \<and> length tr = Suc (length
           [Op_generate env_legacy_only (Some sentinel) 4, Op_uninit,
            Op_generate env_down (Some sentinel) 4, Op_init env_down, Op_uninit])
        \<and> (\<forall>s \<in> set tr. source_invariant Win32 (fst s)))"
proof -
  have v1: "os_handles_valid env_legacy_only"
    by (simp add: os_handles_valid_def env_legacy_only_def env_down_def)
  have v2: "os_handles_valid env_down"
    by (simp add: os_handles_valid_def env_down_def)
  have "list_all os_handles_valid
          (init_envs (Op_init env_legacy_only #
             [Op_generate env_legacy_only (Some sentinel) 4, Op_uninit,
              Op_generate env_down (Some sentinel) 4, Op_init env_down, Op_uninit]))"
    using v1 v2 by simp
  from lifecycle_states [OF this, of Win32 rng_no_close "[]"] v1 v2
  show ?thesis by (intro conjI)
qed

end
